theory Spec2Isabelle
  imports Complex_Main "HOL-Library.Word"
begin

section \<open>Python values used by server.py\<close>

subsection \<open>Strings\<close>

text \<open>
  A Python \<open>str\<close> is a \<open>string\<close>: a list of characters, each standing for the code
  point of the same number (code points below 256 only). \<open>isspace\<close> lists the code
  points below 256 for which Python's \<open>str.isspace\<close> holds: tab, line feed, vertical
  tab, form feed, carriage return, the four separators 28 to 31, space, NEL (133) and
  the no-break space (160).
\<close>

definition isspace :: "char \<Rightarrow> bool" where
  "isspace c = (of_char c \<in> {9, 10, 11, 12, 13, 28, 29, 30, 31, 32, 133, 160 :: nat})"

text \<open>\<open>s.strip()\<close>: leading and trailing whitespace removed.\<close>

definition strip :: "string \<Rightarrow> string" where
  "strip s = rev (dropWhile isspace (rev (dropWhile isspace s)))"

text \<open>\<open>s.split(sep)\<close> for a separator of one character: never an empty list.\<close>

fun str_split :: "char \<Rightarrow> string \<Rightarrow> string list" where
  "str_split sep [] = [[]]"
| "str_split sep (c # cs) =
     (if c = sep then [] # str_split sep cs
      else (case str_split sep cs of
              [] \<Rightarrow> [[c]]
            | l # ls \<Rightarrow> (c # l) # ls))"

text \<open>\<open>s.startswith(p)\<close>.\<close>

definition startswith :: "string \<Rightarrow> string \<Rightarrow> bool" where
  "startswith s p = (take (length p) s = p)"

text \<open>\<open>sep.join(xs)\<close>.\<close>

fun join :: "string \<Rightarrow> string list \<Rightarrow> string" where
  "join sep [] = []"
| "join sep [x] = x"
| "join sep (x # y # ys) = x @ sep @ join sep (y # ys)"

text \<open>\<open>s.replace(a, b)\<close> for two strings of one character each.\<close>

definition replace :: "string \<Rightarrow> char \<Rightarrow> char \<Rightarrow> string" where
  "replace s a b = map (\<lambda>c. if c = a then b else c) s"

text \<open>\<open>str(i)\<close> of an integer, as an f-string renders it: decimal digits, a minus sign first
  for a negative number.\<close>

definition digit_char :: "nat \<Rightarrow> char" where
  "digit_char d = char_of (48 + d)"

fun str_nat :: "nat \<Rightarrow> string" where
  "str_nat n = (if n < 10 then [digit_char n] else str_nat (n div 10) @ [digit_char (n mod 10)])"

declare str_nat.simps [simp del]

definition str_int :: "int \<Rightarrow> string" where
  "str_int i = (if i < 0 then CHR ''-'' # str_nat (nat (- i)) else str_nat (nat i))"

text \<open>\<open>xs[:n]\<close>: a negative \<open>n\<close> counts from the end of the list.\<close>

definition slice_to :: "int \<Rightarrow> 'a list \<Rightarrow> 'a list" where
  "slice_to n xs = (if 0 \<le> n then take (nat n) xs else take (length xs - nat (- n)) xs)"

subsection \<open>Exceptions\<close>

text \<open>
  The Python exceptions the modelled code can raise, by class. \<open>FloatingPointError\<close>
  stands for a division of an array by zero: numpy then yields \<open>inf\<close> or \<open>nan\<close> (and
  warns), which are no real numbers, so the model reports the case instead of a value.
  \<open>QueueEmpty\<close> is \<open>queue.Empty\<close>.
\<close>

datatype py_exc = ValueError | ZeroDivisionError | TypeError | KeyError
  | FloatingPointError | QueueEmpty

text \<open>
  The \<open>detail\<close> of an \<open>HTTPException\<close>: a text, or the text
  \<open>f"Generation failed: {str(e)}"\<close> of the endpoints' last handler, kept as the exception
  \<open>e\<close> it renders.
\<close>

datatype detail = Detail string | Generation_failed py_exc

datatype http_error = HTTPException (status_code: int) (detail: detail)

datatype exn = Http http_error | Py py_exc

text \<open>
  The handlers that close both generation endpoints:
  \<^verbatim>\<open>
    except HTTPException:
        raise
    except Exception as e:
        raise HTTPException(status_code=500, detail=f"Generation failed: {str(e)}")
  \<close>
\<close>

fun reraise :: "exn \<Rightarrow> http_error" where
  "reraise (Http h) = h"
| "reraise (Py e) = HTTPException 500 (Generation_failed e)"

text \<open>
  A request handler returns a response, raises an \<open>HTTPException\<close>, or never returns
  (\<open>None\<close>).
\<close>

type_synonym 'a outcome = "(http_error + 'a) option"

definition try_except :: "(exn + 'a) option \<Rightarrow> 'a outcome" where
  "try_except r =
     (case r of
        None \<Rightarrow> None
      | Some (Inl e) \<Rightarrow> Some (Inl (reraise e))
      | Some (Inr v) \<Rightarrow> Some (Inr v))"

subsection \<open>Arrays and the 16-bit conversion\<close>

text \<open>
  A numpy array (or a torch tensor): its shape and its elements in row-major order. A
  floating-point sample is a real number: the rounding of \<open>float32\<close> arithmetic and the
  values \<open>inf\<close> and \<open>nan\<close> are outside the model. An \<open>int16\<close> sample is a 16-bit word,
  read as two's complement by \<open>sint\<close>.
\<close>

record 'a ndarray =
  shape :: "nat list"
  data :: "'a list"

type_synonym int16 = "16 word"

text \<open>\<open>a.squeeze()\<close>: every axis of length one is dropped; the elements stay.\<close>

definition squeeze :: "'a ndarray \<Rightarrow> 'a ndarray" where
  "squeeze a = a\<lparr>shape := filter (\<lambda>d. d \<noteq> 1) (shape a)\<rparr>"

text \<open>\<open>np.abs\<close> and \<open>np.max\<close> over all elements; \<open>np.max\<close> of an array with no element
  raises \<open>ValueError\<close>.\<close>

definition np_abs :: "real list \<Rightarrow> real list" where
  "np_abs xs = map abs xs"

definition np_max :: "real list \<Rightarrow> py_exc + real" where
  "np_max xs = (case xs of [] \<Rightarrow> Inl ValueError | x # rest \<Rightarrow> Inr (fold max rest x))"

text \<open>\<open>data / p\<close>, element by element.\<close>

definition np_divide :: "real list \<Rightarrow> real \<Rightarrow> py_exc + real list" where
  "np_divide xs p = (if p = 0 then Inl FloatingPointError else Inr (map (\<lambda>x. x / p) xs))"

text \<open>
  \<open>.astype(np.int16)\<close> of a floating-point value: the fraction is cut off (rounding
  towards zero). A value outside the 16-bit range is taken modulo \<open>2 ^ 16\<close> here; numpy
  leaves that case to the platform, and \<open>convert_to_16_bit_wav\<close> never produces it.
\<close>

definition trunc :: "real \<Rightarrow> int" where
  "trunc x = (if 0 \<le> x then \<lfloor>x\<rfloor> else \<lceil>x\<rceil>)"

definition astype_int16 :: "real \<Rightarrow> int16" where
  "astype_int16 x = word_of_int (trunc x)"

text \<open>\<open>.astype(np.float32)\<close> of an \<open>int16\<close> array: exact.\<close>

definition astype_float32 :: "int16 ndarray \<Rightarrow> real ndarray" where
  "astype_float32 a = \<lparr>shape = shape a, data = map (\<lambda>w. real_of_int (sint w)) (data a)\<rparr>"

text \<open>
  \<^verbatim>\<open>
  def convert_to_16_bit_wav(data):
      if torch.is_tensor(data):
          data = data.detach().cpu().numpy()
      data = np.array(data)
      if np.max(np.abs(data)) > 1.0:
          data = data / np.max(np.abs(data))
      data = (data * 32767).astype(np.int16)
      return data
  \<close>
\<close>

definition convert_to_16_bit_wav :: "real ndarray \<Rightarrow> py_exc + int16 ndarray" where
  "convert_to_16_bit_wav d =
     (case np_max (np_abs (data d)) of
        Inl e \<Rightarrow> Inl e
      | Inr peak \<Rightarrow>
          (case (if peak > 1.0 then np_divide (data d) peak else Inr (data d)) of
             Inl e \<Rightarrow> Inl e
           | Inr scaled \<Rightarrow>
               Inr \<lparr>shape = shape d, data = map (\<lambda>x. astype_int16 (x * 32767)) scaled\<rparr>))"

text \<open>
  \<open>np.concatenate(arrays)\<close> along the first axis: \<open>ValueError\<close> for an empty list, for an
  array of no dimension, and for arrays that differ in the number of dimensions or in a
  dimension other than the first.
\<close>

definition np_concatenate :: "'a ndarray list \<Rightarrow> py_exc + 'a ndarray" where
  "np_concatenate arrays =
     (case arrays of
        [] \<Rightarrow> Inl ValueError
      | a # rest \<Rightarrow>
          if shape a = [] \<or> list_ex (\<lambda>b. shape b = [] \<or> tl (shape b) \<noteq> tl (shape a)) rest
          then Inl ValueError
          else Inr \<lparr>shape = sum_list (map (\<lambda>b. hd (shape b)) arrays) # tl (shape a),
                    data = concat (map data arrays)\<rparr>)"

text \<open>\<open>len(a)\<close>: the length of the first axis; \<open>TypeError\<close> for an array of no dimension.\<close>

definition np_len :: "'a ndarray \<Rightarrow> py_exc + nat" where
  "np_len a = (case shape a of [] \<Rightarrow> Inl TypeError | n # _ \<Rightarrow> Inr n)"

section \<open>The server\<close>

subsection \<open>Requests and their validation\<close>

text \<open>
  \<^verbatim>\<open>
  class GenerationRequest(BaseModel):
      script: str = Field(...)
      num_speakers: int = Field(default=2, ge=1, le=4)
      speakers: List[str] = Field(default=[])
      cfg_scale: float = Field(default=1.3, ge=1.0, le=2.0)
  \<close>
\<close>

record generation_request =
  script :: string
  num_speakers :: int
  speakers :: "string list"
  cfg_scale :: real

text \<open>
  The body of a request as it arrives, each field present or not. The fields have the
  types of the model (what pydantic does with a value of another type is not modelled).
\<close>

record request_body =
  body_script :: "string option"
  body_num_speakers :: "int option"
  body_speakers :: "string list option"
  body_cfg_scale :: "real option"

datatype field_error = Missing string | Invalid string

text \<open>
  \<^verbatim>\<open>
      @field_validator('speakers')
      @classmethod
      def validate_speakers(cls, v, info):
          num_speakers = info.data.get('num_speakers', 2) if info.data else 2
          if len(v) > 0 and len(v) != num_speakers:
              raise ValueError(...)
          return v
  \<close>
  The first argument is \<open>info.data.get('num_speakers')\<close>: the validated value of
  \<open>num_speakers\<close>, absent when that field was refused.
\<close>

definition validate_speakers :: "int option \<Rightarrow> string list \<Rightarrow> field_error list + string list" where
  "validate_speakers data_num_speakers v =
     (let num_speakers = (case data_num_speakers of Some n \<Rightarrow> n | None \<Rightarrow> 2)
      in if length v > 0 \<and> int (length v) \<noteq> num_speakers then Inl [Invalid ''speakers'']
         else Inr v)"

text \<open>
  The validation of a body against \<open>GenerationRequest\<close>, field by field in the order of
  the class: a missing field takes its default (\<open>script\<close> has none), a present one is
  checked against its bounds and its validator, and the errors of all fields are
  collected.
\<close>

definition validate_script :: "request_body \<Rightarrow> field_error list + string" where
  "validate_script b =
     (case body_script b of None \<Rightarrow> Inl [Missing ''script''] | Some s \<Rightarrow> Inr s)"

definition validate_num_speakers :: "request_body \<Rightarrow> field_error list + int" where
  "validate_num_speakers b =
     (case body_num_speakers b of
        None \<Rightarrow> Inr 2
      | Some n \<Rightarrow> if 1 \<le> n \<and> n \<le> 4 then Inr n else Inl [Invalid ''num_speakers''])"

definition validate_speakers_field :: "request_body \<Rightarrow> field_error list + string list" where
  "validate_speakers_field b =
     (case body_speakers b of
        None \<Rightarrow> Inr []
      | Some v \<Rightarrow>
          validate_speakers
            (case validate_num_speakers b of Inr n \<Rightarrow> Some n | Inl _ \<Rightarrow> None) v)"

definition validate_cfg_scale :: "request_body \<Rightarrow> field_error list + real" where
  "validate_cfg_scale b =
     (case body_cfg_scale b of
        None \<Rightarrow> Inr 1.3
      | Some c \<Rightarrow> if 1.0 \<le> c \<and> c \<le> 2.0 then Inr c else Inl [Invalid ''cfg_scale''])"

definition errors_of :: "'e list + 'a \<Rightarrow> 'e list" where
  "errors_of r = (case r of Inl es \<Rightarrow> es | Inr _ \<Rightarrow> [])"

definition validate_request :: "request_body \<Rightarrow> field_error list + generation_request" where
  "validate_request b =
     (case (validate_script b, validate_num_speakers b, validate_speakers_field b,
            validate_cfg_scale b) of
        (Inr s, Inr n, Inr v, Inr c) \<Rightarrow>
          Inr \<lparr>script = s, num_speakers = n, speakers = v, cfg_scale = c\<rparr>
      | _ \<Rightarrow>
          Inl (errors_of (validate_script b) @ errors_of (validate_num_speakers b) @
               errors_of (validate_speakers_field b) @ errors_of (validate_cfg_scale b)))"

subsection \<open>The generation routine and its audio stream\<close>

text \<open>
  A chunk of audio as the streamer hands it over: a torch tensor of some precision or
  anything else that \<open>np.array\<close> accepts.
\<close>

datatype dtype = bfloat16 | float16 | float32 | float64

datatype audio_chunk = Tensor dtype "real ndarray" | Array "real ndarray"

text \<open>
  \<^verbatim>\<open>
            if torch.is_tensor(audio_chunk):
                if audio_chunk.dtype == torch.bfloat16:
                    audio_chunk = audio_chunk.float()
                audio_np = audio_chunk.cpu().numpy().astype(np.float32)
            else:
                audio_np = np.array(audio_chunk, dtype=np.float32)
  \<close>
  Every branch keeps the shape and, up to the rounding to \<open>float32\<close>, the samples.
\<close>

fun to_float32 :: "audio_chunk \<Rightarrow> real ndarray" where
  "to_float32 (Tensor dt a) = (if dt = bfloat16 then a else a)"
| "to_float32 (Array a) = a"

text \<open>
  The body of the collection loop:
  \<^verbatim>\<open>
            if len(audio_np.shape) > 1:
                audio_np = audio_np.squeeze()
            audio_16bit = convert_to_16_bit_wav(audio_np)
            all_audio_chunks.append(audio_16bit)
  \<close>
\<close>

definition chunk_to_16bit :: "audio_chunk \<Rightarrow> py_exc + int16 ndarray" where
  "chunk_to_16bit c =
     (let audio_np = to_float32 c;
          audio_np = (if length (shape audio_np) > 1 then squeeze audio_np else audio_np)
      in convert_to_16_bit_wav audio_np)"

text \<open>
  What \<open>model.generate\<close> is called with: the processor's inputs (the formatted script
  and the voice samples) and the guidance scale.
\<close>

record generation_call =
  call_text :: string
  call_voice_samples :: "real list list"
  call_cfg_scale :: real

text \<open>
  Modelled from the spec: the generation routine \<open>model.generate\<close> and the class
  \<open>AudioStreamer\<close> (module \<open>vibevoice.modular.streamer\<close>) are not among the source
  files. One run of the generation routine on its thread is what it does to its
  channel (spec 4.1, 4.2): it pushes chunks in order (\<open>puts\<close>), it closes the channel
  after them or not (\<open>ended\<close>), and it returns or raises an exception with a reason
  (\<open>raised\<close>). The three are independent: nothing in the source says whether a routine
  that raises has closed its channel first.
\<close>

record worker_run =
  puts :: "audio_chunk list"
  ended :: bool
  raised :: "string option"

datatype queue_item = Chunk audio_chunk | Stop_signal

text \<open>
  Modelled from the spec: the items the channel will ever hold for the consumer, in the
  order of production (spec 3: the channel must not reorder chunks).
\<close>

definition channel_items :: "worker_run \<Rightarrow> queue_item list" where
  "channel_items w = map Chunk (puts w) @ (if ended w then [Stop_signal] else [])"

text \<open>
  Modelled from the spec: \<open>pull\<close> on the channel (spec 4.1) blocks until a chunk is
  available, the channel closes, or the wait timeout given by the caller elapses. The
  first argument is the \<open>timeout\<close> the streamer was created with, \<open>None\<close> for no
  timeout; the second the items still to come. With no item left and no timeout the
  call blocks for ever.
\<close>

datatype pull_result = Got audio_chunk "queue_item list" | End_of_stream | Timed_out
  | Blocks_forever

fun pull :: "real option \<Rightarrow> queue_item list \<Rightarrow> pull_result" where
  "pull t (Chunk c # rest) = Got c rest"
| "pull t (Stop_signal # rest) = End_of_stream"
| "pull (Some d) [] = Timed_out"
| "pull None [] = Blocks_forever"

text \<open>
  The collection loop of both endpoints, over the stream of the streamer:
  \<^verbatim>\<open>
        all_audio_chunks = []
        audio_stream = audio_streamer.get_stream(0)
        for audio_chunk in audio_stream:
            ...
            all_audio_chunks.append(audio_16bit)
  \<close>
  The loop ends at the end of the stream, leaves by an exception of its body (or of a
  pull that timed out), or never ends (\<open>None\<close>).
\<close>

function collect_chunks ::
  "real option \<Rightarrow> queue_item list \<Rightarrow> int16 ndarray list \<Rightarrow> (py_exc + int16 ndarray list) option"
where
  "collect_chunks t items all_audio_chunks =
     (case pull t items of
        Got c rest \<Rightarrow>
          (case chunk_to_16bit c of
             Inl e \<Rightarrow> Some (Inl e)
           | Inr audio_16bit \<Rightarrow> collect_chunks t rest (all_audio_chunks @ [audio_16bit]))
      | End_of_stream \<Rightarrow> Some (Inr all_audio_chunks)
      | Timed_out \<Rightarrow> Some (Inl QueueEmpty)
      | Blocks_forever \<Rightarrow> None)"
  by pat_completeness auto
termination
proof (relation "measure (\<lambda>(t, items, acc). length items)")
  show "wf (measure (\<lambda>(t, items, acc). length items))" by simp
next
  fix t :: "real option" and items :: "queue_item list"
    and all_audio_chunks :: "int16 ndarray list"
    and c rest audio_16bit
  assume "pull t items = Got c rest"
  then have "items = Chunk c # rest"
    by (cases "(t, items)" rule: pull.cases) auto
  then show "((t, rest, all_audio_chunks @ [audio_16bit]), (t, items, all_audio_chunks))
      \<in> measure (\<lambda>(t, items, acc). length items)"
    by simp
qed

declare collect_chunks.simps [simp del]

subsection \<open>The server object and its surroundings\<close>

text \<open>
  The fields of \<open>VibeVoiceServer\<close> that the endpoints read. \<open>available_voices\<close> is the
  dictionary from voice name to file path, in its order. \<open>processor_loaded\<close> says
  whether \<open>processor\<close> is set (it is \<open>None\<close> before). \<open>model\<close> is \<open>None\<close> or the loaded
  model, which is what its \<open>generate\<close> does on a call.
\<close>

record server =
  is_initialized :: bool
  available_voices :: "(string \<times> string) list"
  processor_loaded :: bool
  model :: "(generation_call \<Rightarrow> worker_run) option"

text \<open>
  What the endpoints read from outside the server object: the result of
  \<open>read_audio\<close> for a path (the decoded waveform, empty when the file cannot be read)
  and the value of \<open>int(os.getenv("SAMPLE_RATE", "24000"))\<close>.
\<close>

record environment =
  read_audio :: "string \<Rightarrow> real list"
  SAMPLE_RATE :: int

text \<open>
  The thread both endpoints start:
  \<^verbatim>\<open>
        generation_thread = threading.Thread(
            target=lambda: vibe_server.model.generate(**inputs, ...,
                audio_streamer=audio_streamer, ...))
        generation_thread.start()
  \<close>
  An exception of the target ends the thread and goes nowhere else. With no model
  loaded the target raises at once, before any use of the streamer.
\<close>

definition start_generation :: "server \<Rightarrow> generation_call \<Rightarrow> worker_run" where
  "start_generation srv inputs =
     (case model srv of
        None \<Rightarrow> \<lparr>puts = [], ended = False, raised = Some ''AttributeError''\<rparr>
      | Some generate \<Rightarrow> generate inputs)"

subsection \<open>Speakers and voice samples\<close>

definition default_speakers :: "string list" where
  "default_speakers = [''en-Alice_woman'', ''en-Carter_man'', ''en-Frank_man'', ''en-Maya_woman'']"

text \<open>
  \<^verbatim>\<open>
            remaining = request.num_speakers - len(selected_speakers)
            for speaker in available_speakers:
                if remaining <= 0:
                    break
                if speaker not in selected_speakers:
                    selected_speakers.append(speaker)
                    remaining -= 1
  \<close>
\<close>

fun fill_remaining :: "string list \<Rightarrow> int \<Rightarrow> string list \<Rightarrow> string list" where
  "fill_remaining [] remaining selected_speakers = selected_speakers"
| "fill_remaining (speaker # rest) remaining selected_speakers =
     (if remaining \<le> 0 then selected_speakers
      else if speaker \<notin> set selected_speakers
        then fill_remaining rest (remaining - 1) (selected_speakers @ [speaker])
      else fill_remaining rest remaining selected_speakers)"

text \<open>The speaker selection of \<open>generate_podcast\<close> (source lines 383 to 400).\<close>

definition select_speakers :: "server \<Rightarrow> generation_request \<Rightarrow> string list" where
  "select_speakers srv request =
     (if speakers request \<noteq> [] then speakers request
      else
        let available_speakers = map fst (available_voices srv);
            selected_speakers =
              filter (\<lambda>speaker. speaker \<in> set available_speakers)
                (slice_to (num_speakers request) default_speakers);
            remaining = num_speakers request - int (length selected_speakers)
        in fill_remaining available_speakers remaining selected_speakers)"

text \<open>The speaker selection of \<open>generate_podcast_wav\<close> (source lines 562 to 571).\<close>

definition select_speakers_wav :: "server \<Rightarrow> generation_request \<Rightarrow> exn + string list" where
  "select_speakers_wav srv request =
     (if speakers request \<noteq> [] then Inr (slice_to (num_speakers request) (speakers request))
      else
        let available_speaker_list = map fst (available_voices srv)
        in if int (length available_speaker_list) < num_speakers request
           then Inl (Http (HTTPException 400 (Detail (''Requested '' @
                  str_int (num_speakers request) @ '' speakers but only '' @
                  str_int (int (length available_speaker_list)) @ '' available''))))
           else Inr (slice_to (num_speakers request) available_speaker_list))"

text \<open>
  \<^verbatim>\<open>
        for speaker in selected_speakers:
            if speaker not in vibe_server.available_voices:
                raise HTTPException(status_code=400, detail=f"Speaker '{speaker}' not found")
  \<close>
\<close>

fun check_speakers :: "server \<Rightarrow> string list \<Rightarrow> exn + unit" where
  "check_speakers srv [] = Inr ()"
| "check_speakers srv (speaker # rest) =
     (if speaker \<notin> fst ` set (available_voices srv)
      then Inl (Http (HTTPException 400
             (Detail (''Speaker '' @ [CHR 0x27] @ speaker @ [CHR 0x27] @ '' not found''))))
      else check_speakers srv rest)"

text \<open>
  \<^verbatim>\<open>
        voice_samples = []
        for speaker_name in selected_speakers:
            audio_path = vibe_server.available_voices[speaker_name]
            audio_data = vibe_server.read_audio(audio_path)
            if len(audio_data) == 0:
                raise HTTPException(status_code=500, detail=f"Failed to load audio for {speaker_name}")
            voice_samples.append(audio_data)
  \<close>
\<close>

fun load_voice_samples ::
  "server \<Rightarrow> environment \<Rightarrow> string list \<Rightarrow> real list list \<Rightarrow> exn + real list list"
where
  "load_voice_samples srv env [] voice_samples = Inr voice_samples"
| "load_voice_samples srv env (speaker_name # rest) voice_samples =
     (case map_of (available_voices srv) speaker_name of
        None \<Rightarrow> Inl (Py KeyError)
      | Some audio_path \<Rightarrow>
          let audio_data = read_audio env audio_path
          in if length audio_data = 0
             then Inl (Http (HTTPException 500
                    (Detail (''Failed to load audio for '' @ speaker_name))))
             else load_voice_samples srv env rest (voice_samples @ [audio_data]))"

subsection \<open>Formatting the script\<close>

text \<open>
  \<^verbatim>\<open>
        lines = script.strip().split('\n')
        formatted_script_lines = []
        for line in lines:
            line = line.strip()
            if not line:
                continue
            if line.startswith('Speaker ') and ':' in line:
                formatted_script_lines.append(line)
            else:
                speaker_id = (len(formatted_script_lines) % request.num_speakers) + 1
                formatted_script_lines.append(f"Speaker {speaker_id}: {line}")
        formatted_script = '\n'.join(formatted_script_lines)
  \<close>
  \<open>%\<close> by zero raises \<open>ZeroDivisionError\<close>; for another divisor it is \<open>mod\<close> on \<open>int\<close>
  (the result has the sign of the divisor in both).
\<close>

fun format_lines :: "int \<Rightarrow> string list \<Rightarrow> string list \<Rightarrow> py_exc + string list" where
  "format_lines n [] formatted_script_lines = Inr formatted_script_lines"
| "format_lines n (l # lines) formatted_script_lines =
     (if strip l = [] then format_lines n lines formatted_script_lines
      else if startswith (strip l) ''Speaker '' \<and> CHR '':'' \<in> set (strip l)
        then format_lines n lines (formatted_script_lines @ [strip l])
      else if n = 0 then Inl ZeroDivisionError
      else format_lines n lines
             (formatted_script_lines @
              [''Speaker '' @ str_int (int (length formatted_script_lines) mod n + 1) @
               '': '' @ strip l]))"

definition format_script :: "int \<Rightarrow> string \<Rightarrow> py_exc + string list" where
  "format_script n s = format_lines n (str_split (CHR 0x0A) (strip s)) []"

subsection \<open>From the stream to the assembled audio\<close>

text \<open>
  \<^verbatim>\<open>
        generation_thread.join(timeout=10.0)
        if all_audio_chunks:
            audio_data = np.concatenate(all_audio_chunks).astype(np.float32)
        else:
            raise HTTPException(status_code=500, detail="No audio chunks were generated")
        sample_rate = int(os.getenv("SAMPLE_RATE", "24000"))
        duration = len(audio_data) / sample_rate
  \<close>
  The join waits ten seconds at most and changes no value. The result is the pair of
  \<open>audio_data\<close> and \<open>duration\<close>.
\<close>

definition assemble :: "environment \<Rightarrow> int16 ndarray list \<Rightarrow> exn + real ndarray \<times> real" where
  "assemble env all_audio_chunks =
     (if all_audio_chunks \<noteq> [] then
        (case np_concatenate all_audio_chunks of
           Inl e \<Rightarrow> Inl (Py e)
         | Inr a \<Rightarrow>
             let audio_data = astype_float32 a;
                 sample_rate = SAMPLE_RATE env
             in (case np_len audio_data of
                   Inl e \<Rightarrow> Inl (Py e)
                 | Inr n \<Rightarrow>
                     if sample_rate = 0 then Inl (Py ZeroDivisionError)
                     else Inr (audio_data, real n / real_of_int sample_rate)))
      else Inl (Http (HTTPException 500 (Detail ''No audio chunks were generated''))))"

text \<open>
  Source lines 454 to 517 and, word for word, 622 to 685: the streamer is created with
  \<open>timeout=None\<close>, the thread is started, the handler sleeps one second, drains the
  stream and assembles the chunks. The second argument is the run of the thread.
\<close>

definition collect_audio :: "environment \<Rightarrow> worker_run \<Rightarrow> (exn + real ndarray \<times> real) option" where
  "collect_audio env run =
     (let timeout = None
      in case collect_chunks timeout (channel_items run) [] of
           None \<Rightarrow> None
         | Some (Inl e) \<Rightarrow> Some (Inl (Py e))
         | Some (Inr all_audio_chunks) \<Rightarrow> Some (assemble env all_audio_chunks))"

subsection \<open>The endpoints\<close>

text \<open>
  A WAV file written by \<open>sf.write(target, audio_16bit, sample_rate)\<close>, as the two
  values that fix its content. The container format and its base64 text are not
  modelled, and the write is taken to succeed.
\<close>

record wav_file =
  wav_sample_rate :: int
  wav_samples :: "int16 ndarray"

text \<open>
  \<^verbatim>\<open>
  def audio_to_base64(audio_data, sample_rate=24000):
      audio_16bit = convert_to_16_bit_wav(audio_data)
      buffer = io.BytesIO()
      sf.write(buffer, audio_16bit, sample_rate, format='WAV')
      wav_bytes = buffer.getvalue()
      return base64.b64encode(wav_bytes).decode('utf-8')
  \<close>
\<close>

definition audio_to_base64 :: "real ndarray \<Rightarrow> int \<Rightarrow> py_exc + wav_file" where
  "audio_to_base64 audio_data sample_rate =
     (case convert_to_16_bit_wav audio_data of
        Inl e \<Rightarrow> Inl e
      | Inr audio_16bit \<Rightarrow> Inr \<lparr>wav_sample_rate = sample_rate, wav_samples = audio_16bit\<rparr>)"

text \<open>
  \<open>GenerationResponse\<close> without \<open>message\<close> and \<open>generation_id\<close>, which are made from the
  clock.
\<close>

record generation_response =
  status :: string
  audio_base64 :: wav_file
  duration :: real
  sample_rate :: int

text \<open>
  The \<open>FileResponse\<close> of \<open>/generate/wav\<close>: the file and the header \<open>X-Duration\<close>
  (\<open>str(duration)\<close>, kept as the number).
\<close>

record file_response =
  file_content :: wav_file
  x_duration :: real

text \<open>
  \<^verbatim>\<open>
        inputs = vibe_server.processor(text=[formatted_script],
            voice_samples=[voice_samples], ...)
  \<close>
  Calling a processor that is \<open>None\<close> raises \<open>TypeError\<close>. The processor itself is an
  outside collaborator: its result is kept as the values it was given, together with
  \<open>request.cfg_scale\<close>, which \<open>generate\<close> receives with them.
\<close>

definition call_processor ::
  "server \<Rightarrow> string \<Rightarrow> real list list \<Rightarrow> real \<Rightarrow> exn + generation_call"
where
  "call_processor srv formatted_script voice_samples cfg =
     (if \<not> processor_loaded srv then Inl (Py TypeError)
      else Inr \<lparr>call_text = formatted_script, call_voice_samples = voice_samples,
                call_cfg_scale = cfg\<rparr>)"

text \<open>
  \<open>generate_podcast\<close> from the check of the script to the call of the processor (source
  lines 376 to 449). \<open>script.replace("'", "'")\<close> replaces the apostrophe by itself.
\<close>

definition prepare_generate :: "server \<Rightarrow> environment \<Rightarrow> generation_request \<Rightarrow> exn + generation_call" where
  "prepare_generate srv env request =
     (if strip (script request) = []
      then Inl (Http (HTTPException 400 (Detail ''Script cannot be empty'')))
      else
        let s = replace (script request) (CHR 0x27) (CHR 0x27);
            selected_speakers = select_speakers srv request
        in case check_speakers srv selected_speakers of
             Inl e \<Rightarrow> Inl e
           | Inr _ \<Rightarrow>
               (case load_voice_samples srv env selected_speakers [] of
                  Inl e \<Rightarrow> Inl e
                | Inr voice_samples \<Rightarrow>
                    (case format_script (num_speakers request) s of
                       Inl e \<Rightarrow> Inl (Py e)
                     | Inr formatted_script_lines \<Rightarrow>
                         call_processor srv (join ''\<newline>'' formatted_script_lines)
                           voice_samples (cfg_scale request))))"

text \<open>
  \<open>POST /generate\<close>. Saving the audio to the output directory (\<open>save_audio_file\<close>, which
  catches every exception of its own) leaves the response as it is and is left out.
\<close>

definition generate_podcast ::
  "server \<Rightarrow> environment \<Rightarrow> generation_request \<Rightarrow> generation_response outcome"
where
  "generate_podcast srv env request =
     (if \<not> is_initialized srv
      then Some (Inl (HTTPException 503 (Detail ''Server is still initializing'')))
      else try_except
        (case prepare_generate srv env request of
           Inl e \<Rightarrow> Some (Inl e)
         | Inr inputs \<Rightarrow>
             (case collect_audio env (start_generation srv inputs) of
                None \<Rightarrow> None
              | Some (Inl e) \<Rightarrow> Some (Inl e)
              | Some (Inr (audio_data, dur)) \<Rightarrow>
                  (case audio_to_base64 audio_data (SAMPLE_RATE env) of
                     Inl e \<Rightarrow> Some (Inl (Py e))
                   | Inr audio \<Rightarrow>
                       Some (Inr \<lparr>status = ''success'', audio_base64 = audio,
                                  duration = dur, sample_rate = SAMPLE_RATE env\<rparr>)))))"

text \<open>
  \<open>generate_podcast_wav\<close> from the speaker selection to the call of the processor
  (source lines 562 to 617); \<open>s\<close> is \<open>request.script.strip()\<close>.
\<close>

definition prepare_wav ::
  "server \<Rightarrow> environment \<Rightarrow> generation_request \<Rightarrow> string \<Rightarrow> exn + generation_call"
where
  "prepare_wav srv env request s =
     (case select_speakers_wav srv request of
        Inl e \<Rightarrow> Inl e
      | Inr selected_speakers \<Rightarrow>
          (case check_speakers srv selected_speakers of
             Inl e \<Rightarrow> Inl e
           | Inr _ \<Rightarrow>
               (case load_voice_samples srv env selected_speakers [] of
                  Inl e \<Rightarrow> Inl e
                | Inr voice_samples \<Rightarrow>
                    (case format_script (num_speakers request) s of
                       Inl e \<Rightarrow> Inl (Py e)
                     | Inr formatted_script_lines \<Rightarrow>
                         call_processor srv (join ''\<newline>'' formatted_script_lines)
                           voice_samples (cfg_scale request)))))"

text \<open>
  \<open>POST /generate/wav\<close>. The temporary file holds
  \<open>convert_to_16_bit_wav(audio_data)\<close> at the configured sample rate.
\<close>

definition generate_podcast_wav ::
  "server \<Rightarrow> environment \<Rightarrow> generation_request \<Rightarrow> file_response outcome"
where
  "generate_podcast_wav srv env request =
     (let s = strip (script request)
      in if s = [] then Some (Inl (HTTPException 400 (Detail ''Script cannot be empty'')))
         else try_except
           (case prepare_wav srv env request s of
              Inl e \<Rightarrow> Some (Inl e)
            | Inr inputs \<Rightarrow>
                (case collect_audio env (start_generation srv inputs) of
                   None \<Rightarrow> None
                 | Some (Inl e) \<Rightarrow> Some (Inl e)
                 | Some (Inr (audio_data, dur)) \<Rightarrow>
                     (case convert_to_16_bit_wav audio_data of
                        Inl e \<Rightarrow> Some (Inl (Py e))
                      | Inr audio_16bit \<Rightarrow>
                          Some (Inr \<lparr>file_content =
                                       \<lparr>wav_sample_rate = SAMPLE_RATE env,
                                        wav_samples = audio_16bit\<rparr>,
                                     x_duration = dur\<rparr>)))))"

text \<open>
  \<open>POST /generate/stream\<close>: after the check of \<open>is_initialized\<close>, two frames (type and
  message) and no generation.
\<close>

datatype frame = Frame string string

definition generate_podcast_stream :: "server \<Rightarrow> generation_request \<Rightarrow> http_error + frame list" where
  "generate_podcast_stream srv request =
     (if \<not> is_initialized srv
      then Inl (HTTPException 503 (Detail ''Server is still initializing''))
      else Inr [Frame ''status'' ''Generation starting...'',
                Frame ''complete'' ''Streaming not yet fully implemented''])"

text \<open>
  The thread a request starts, if its handler comes that far: the run of the generation
  routine on the inputs the handler prepared.
\<close>

definition generate_thread :: "server \<Rightarrow> environment \<Rightarrow> generation_request \<Rightarrow> worker_run option" where
  "generate_thread srv env request =
     (if \<not> is_initialized srv then None
      else case prepare_generate srv env request of
             Inl e \<Rightarrow> None
           | Inr inputs \<Rightarrow> Some (start_generation srv inputs))"

definition wav_thread :: "server \<Rightarrow> environment \<Rightarrow> generation_request \<Rightarrow> worker_run option" where
  "wav_thread srv env request =
     (if strip (script request) = [] then None
      else case prepare_wav srv env request (strip (script request)) of
             Inl e \<Rightarrow> None
           | Inr inputs \<Rightarrow> Some (start_generation srv inputs))"

text \<open>
  The framework in front of the three handlers: the body is validated against
  \<open>GenerationRequest\<close>, and the handler runs on a valid request only. (The check of the
  API key, which comes with it, is not modelled: the key is taken to be right.)
\<close>

datatype 'a http_result = Rejected "field_error list" | Handled 'a

definition post_generate ::
  "server \<Rightarrow> environment \<Rightarrow> request_body \<Rightarrow> generation_response outcome http_result"
where
  "post_generate srv env body =
     (case validate_request body of
        Inl errors \<Rightarrow> Rejected errors
      | Inr request \<Rightarrow> Handled (generate_podcast srv env request))"

definition post_generate_wav ::
  "server \<Rightarrow> environment \<Rightarrow> request_body \<Rightarrow> file_response outcome http_result"
where
  "post_generate_wav srv env body =
     (case validate_request body of
        Inl errors \<Rightarrow> Rejected errors
      | Inr request \<Rightarrow> Handled (generate_podcast_wav srv env request))"

definition post_generate_stream ::
  "server \<Rightarrow> request_body \<Rightarrow> (http_error + frame list) http_result"
where
  "post_generate_stream srv body =
     (case validate_request body of
        Inl errors \<Rightarrow> Rejected errors
      | Inr request \<Rightarrow> Handled (generate_podcast_stream srv request))"

section \<open>Notions of the specification\<close>

text \<open>
  The peak absolute sample magnitude of a buffer (specification 4.4), as a number of its
  own: the greatest absolute value among the samples. The code computes it as
  \<open>np_max (np_abs xs)\<close>.
\<close>

definition peak :: "real list \<Rightarrow> real" where
  "peak xs = Max (abs ` set xs)"

section \<open>The 16-bit conversion\<close>

lemma np_max_eq_Max:
  assumes "xs \<noteq> []"
  shows "np_max xs = Inr (Max (set xs))"
proof (cases xs)
  case Nil
  with assms show ?thesis by simp
next
  case (Cons x rest)
  have "Max (set (x # rest)) = fold max rest x" by (rule Max.set_eq_fold)
  with Cons show ?thesis by (simp add: np_max_def)
qed

lemma np_max_abs_peak: "xs \<noteq> [] \<Longrightarrow> np_max (np_abs xs) = Inr (peak xs)"
  by (simp add: np_max_eq_Max np_abs_def peak_def)

lemma np_max_Nil: "np_max (np_abs []) = Inl ValueError"
  by (simp add: np_max_def np_abs_def)

lemma abs_le_peak: "x \<in> set xs \<Longrightarrow> \<bar>x\<bar> \<le> peak xs"
  by (simp add: peak_def)

lemma peak_nonneg:
  assumes "xs \<noteq> []"
  shows "0 \<le> peak xs"
proof -
  from assms obtain x where "x \<in> set xs" by (cases xs) auto
  then have "\<bar>x\<bar> \<le> peak xs" by (rule abs_le_peak)
  then show ?thesis by linarith
qed

text \<open>Cutting the fraction off moves a value by less than one and keeps it in range.\<close>

lemma trunc_bounds: "\<bar>y\<bar> \<le> 32767 \<Longrightarrow> - 32767 \<le> trunc y \<and> trunc y \<le> 32767"
  unfolding trunc_def by (auto simp: le_floor_iff floor_le_iff ceiling_le_iff le_ceiling_iff)

lemma trunc_close: "\<bar>real_of_int (trunc y) - y\<bar> < 1"
  unfolding trunc_def by (auto simp: abs_less_iff) linarith+

lemma trunc_zero: "trunc 0 = 0"
  by (simp add: trunc_def)

lemma sint_astype_int16:
  assumes "\<bar>y\<bar> \<le> 32767"
  shows "sint (astype_int16 y) = trunc y"
proof -
  from assms have "- 32767 \<le> trunc y \<and> trunc y \<le> 32767" by (rule trunc_bounds)
  then have "signed_take_bit 15 (trunc y) = trunc y"
    by (intro signed_take_bit_int_eq_self) simp_all
  then show ?thesis by (simp add: astype_int16_def sint_sbintrunc')
qed

lemma scaled_in_range:
  fixes x p :: real
  assumes "\<bar>x\<bar> \<le> p" and "1 < p"
  shows "\<bar>x / p * 32767\<bar> \<le> 32767"
proof -
  from assms have "\<bar>x\<bar> / p \<le> 1" by (simp add: field_simps)
  with assms have "\<bar>x / p\<bar> \<le> 1" by simp
  then have "\<bar>x / p\<bar> * 32767 \<le> 1 * 32767" by (intro mult_right_mono) simp_all
  then show ?thesis by (simp add: abs_mult)
qed

text \<open>The two cases of the conversion of a buffer that has a sample.\<close>

lemma convert_rescaled:
  assumes "data d \<noteq> []" and "1 < peak (data d)"
  shows "convert_to_16_bit_wav d =
           Inr \<lparr>shape = shape d,
                data = map (\<lambda>x. astype_int16 (x / peak (data d) * 32767)) (data d)\<rparr>"
  using assms by (simp add: convert_to_16_bit_wav_def np_max_abs_peak np_divide_def comp_def)

lemma convert_unscaled:
  assumes "data d \<noteq> []" and "\<not> 1 < peak (data d)"
  shows "convert_to_16_bit_wav d =
           Inr \<lparr>shape = shape d, data = map (\<lambda>x. astype_int16 (x * 32767)) (data d)\<rparr>"
  using assms by (simp add: convert_to_16_bit_wav_def np_max_abs_peak)

lemma convert_empty: "data d = [] \<Longrightarrow> convert_to_16_bit_wav d = Inl ValueError"
  by (simp add: convert_to_16_bit_wav_def np_max_Nil)

lemma convert_succeeds:
  assumes "data d \<noteq> []"
  shows "\<exists>out. convert_to_16_bit_wav d = Inr out \<and> shape out = shape d \<and>
           length (data out) = length (data d)"
proof (cases "1 < peak (data d)")
  case True
  with assms convert_rescaled [of d] show ?thesis by simp
next
  case False
  with assms convert_unscaled [of d] show ?thesis by simp
qed

lemma convert_Inr_iff: "(\<exists>out. convert_to_16_bit_wav d = Inr out) \<longleftrightarrow> data d \<noteq> []"
  using convert_succeeds [of d] convert_empty [of d] by auto

lemma convert_Inr_shape:
  assumes "convert_to_16_bit_wav d = Inr out"
  shows "shape out = shape d \<and> length (data out) = length (data d) \<and> data d \<noteq> []"
proof -
  from assms have ne: "data d \<noteq> []" using convert_empty [of d] by auto
  with convert_succeeds [of d] assms show ?thesis by auto
qed

text \<open>A buffer of zeros has peak zero and is converted to zeros.\<close>

lemma peak_silent:
  assumes "xs \<noteq> []" and "\<forall>x \<in> set xs. x = 0"
  shows "peak xs = 0"
proof -
  from assms have "set xs = {0}" by (cases xs) auto
  then show ?thesis by (simp add: peak_def)
qed

lemma convert_silent:
  assumes "data d \<noteq> []" and "\<forall>x \<in> set (data d). x = 0"
  shows "convert_to_16_bit_wav d =
           Inr \<lparr>shape = shape d, data = map (\<lambda>x. 0) (data d)\<rparr>"
proof -
  from assms have "peak (data d) = 0" by (rule peak_silent)
  with assms(1) have "convert_to_16_bit_wav d =
      Inr \<lparr>shape = shape d, data = map (\<lambda>x. astype_int16 (x * 32767)) (data d)\<rparr>"
    using convert_unscaled [of d] by simp
  moreover have "map (\<lambda>x. astype_int16 (x * 32767)) (data d) = map (\<lambda>x. 0) (data d)"
  proof (rule map_cong [OF refl])
    fix x assume "x \<in> set (data d)"
    with assms(2) have "x = 0" by blast
    then show "astype_int16 (x * 32767) = 0" by (simp add: astype_int16_def trunc_zero)
  qed
  ultimately show ?thesis by simp
qed

text \<open>
  Claim C2. For every buffer with at least one sample (so that it has a peak), the
  conversion returns a buffer of the same shape whose samples are: the sample divided
  by the peak, times 32767, cut to an integer, if the peak exceeds 1.0; the sample
  times 32767, cut to an integer, if the peak is at most 1.0. No result leaves the
  16-bit range (\<open>sint\<close> reads back the integer that was cut). For a peak of 2.0, each
  output sample differs by less than one from half the unrescaled product.
\<close>

theorem convert_rescales_by_peak:
  assumes "data d \<noteq> []"
  shows "\<exists>out. convert_to_16_bit_wav d = Inr out \<and> shape out = shape d \<and>
           length (data out) = length (data d) \<and>
           (\<forall>i < length (data d).
              sint (data out ! i) =
                trunc ((if peak (data d) > 1 then data d ! i / peak (data d) else data d ! i)
                       * 32767) \<and>
              (peak (data d) = 2 \<longrightarrow>
                 \<bar>real_of_int (sint (data out ! i)) - data d ! i * 32767 / 2\<bar> < 1))"
proof (cases "peak (data d) > 1")
  case True
  let ?p = "peak (data d)"
  let ?out = "\<lparr>shape = shape d, data = map (\<lambda>x. astype_int16 (x / ?p * 32767)) (data d)\<rparr>"
  from True assms have conv: "convert_to_16_bit_wav d = Inr ?out"
    using convert_rescaled [of d] by simp
  have elt: "sint (data ?out ! i) = trunc (data d ! i / ?p * 32767)" if "i < length (data d)" for i
  proof -
    from that have "\<bar>data d ! i\<bar> \<le> ?p" by (intro abs_le_peak) simp
    with True have "\<bar>data d ! i / ?p * 32767\<bar> \<le> 32767" by (intro scaled_in_range)
    then show ?thesis using that by (simp add: sint_astype_int16)
  qed
  have half: "\<bar>real_of_int (sint (data ?out ! i)) - data d ! i * 32767 / 2\<bar> < 1"
    if "i < length (data d)" and "?p = 2" for i
  proof -
    have "\<bar>real_of_int (trunc (data d ! i / 2 * 32767)) - data d ! i / 2 * 32767\<bar> < 1"
      by (rule trunc_close)
    with elt [OF that(1)] that(2) show ?thesis by simp
  qed
  show ?thesis
    using True conv elt half by (intro exI [of _ ?out]) simp
next
  case False
  let ?p = "peak (data d)"
  let ?out = "\<lparr>shape = shape d, data = map (\<lambda>x. astype_int16 (x * 32767)) (data d)\<rparr>"
  from False assms have conv: "convert_to_16_bit_wav d = Inr ?out"
    using convert_unscaled [of d] by simp
  have elt: "sint (data ?out ! i) = trunc (data d ! i * 32767)" if "i < length (data d)" for i
  proof -
    from that have "\<bar>data d ! i\<bar> \<le> ?p" by (intro abs_le_peak) simp
    with False have "\<bar>data d ! i * 32767\<bar> \<le> 32767" by (simp add: abs_mult)
    then show ?thesis using that by (simp add: sint_astype_int16)
  qed
  show ?thesis
    using False conv elt by (intro exI [of _ ?out]) simp
qed

text \<open>
  The buffer \<open>[2, -1, 1/2]\<close> has peak 2: its samples are halved before they are scaled
  (\<open>65534 / 2\<close>, \<open>-32767 / 2\<close> and \<open>16383.5 / 2\<close>, each cut to an integer).
\<close>

theorem convert_rescales_by_peak_witness:
  "data \<lparr>shape = [3], data = [2, - 1, 1 / 2 :: real]\<rparr> \<noteq> [] \<and>
   peak [2, - 1, 1 / 2] = 2 \<and>
   (\<exists>out. convert_to_16_bit_wav \<lparr>shape = [3], data = [2, - 1, 1 / 2]\<rparr> = Inr out \<and>
      shape out = [3] \<and> map sint (data out) = [32767, - 16383, 8191])"
proof -
  let ?d = "\<lparr>shape = [3], data = [2, - 1, 1 / 2 :: real]\<rparr>"
  have ne: "data ?d \<noteq> []" by simp
  have pk: "peak [2, - 1, 1 / 2] = 2" by (simp add: peak_def)
  from convert_rescales_by_peak [OF ne] obtain out where
    out: "convert_to_16_bit_wav ?d = Inr out" and sh: "shape out = [3]" by auto
  from out have "map sint (data out) = [32767, - 16383, 8191]"
    by (auto simp: convert_to_16_bit_wav_def np_max_def np_abs_def np_divide_def
        astype_int16_def trunc_def)
  with out sh have "\<exists>out. convert_to_16_bit_wav ?d = Inr out \<and>
      shape out = [3] \<and> map sint (data out) = [32767, - 16383, 8191]"
    by (intro exI [of _ out]) simp
  with ne pk show ?thesis by simp
qed

text \<open>
  Claim C10, amended. For every buffer with at least one sample, the silent buffer
  among them, the conversion returns a buffer of as many samples, and a buffer of zeros
  for a buffer of zeros. It never divides by zero, whatever the buffer: the division is
  made only by a peak above 1.0. A buffer with no sample has no peak: for it the
  conversion raises \<open>ValueError\<close>.
\<close>

theorem convert_total_on_samples:
  "convert_to_16_bit_wav d \<noteq> Inl FloatingPointError \<and>
   (data d = [] \<longrightarrow> convert_to_16_bit_wav d = Inl ValueError) \<and>
   (data d \<noteq> [] \<longrightarrow>
      (\<exists>out. convert_to_16_bit_wav d = Inr out \<and> shape out = shape d \<and>
         length (data out) = length (data d) \<and>
         ((\<forall>x \<in> set (data d). x = 0) \<longrightarrow> (\<forall>w \<in> set (data out). w = 0))))"
proof (cases "data d = []")
  case True
  then show ?thesis by (simp add: convert_empty)
next
  case False
  from convert_succeeds [OF False] obtain out where out: "convert_to_16_bit_wav d = Inr out"
    and sh: "shape out = shape d" and len: "length (data out) = length (data d)"
    by blast
  have zeros: "\<forall>w \<in> set (data out). w = 0" if silent: "\<forall>x \<in> set (data d). x = 0"
  proof -
    from convert_silent [OF False silent] out
    have "data out = map (\<lambda>x. 0) (data d)" by simp
    then show ?thesis by simp
  qed
  have c1: "convert_to_16_bit_wav d \<noteq> Inl FloatingPointError"
    unfolding out by simp
  have c3: "\<exists>out. convert_to_16_bit_wav d = Inr out \<and> shape out = shape d \<and>
         length (data out) = length (data d) \<and>
         ((\<forall>x \<in> set (data d). x = 0) \<longrightarrow> (\<forall>w \<in> set (data out). w = 0))"
    using out sh len zeros by (intro exI [of _ out]) blast
  from False c1 c3 show ?thesis by blast
qed

text \<open>Three samples of silence become three zeros.\<close>

theorem convert_total_on_samples_witness:
  "data \<lparr>shape = [3], data = [0, 0, 0 :: real]\<rparr> \<noteq> [] \<and>
   convert_to_16_bit_wav \<lparr>shape = [3], data = [0, 0, 0]\<rparr> =
     Inr \<lparr>shape = [3], data = [0, 0, 0]\<rparr> \<and>
   convert_to_16_bit_wav \<lparr>shape = [0], data = []\<rparr> = Inl ValueError"
  using convert_total_on_samples [of "\<lparr>shape = [3], data = [0, 0, 0]\<rparr>"]
  by (simp add: convert_to_16_bit_wav_def np_max_def np_abs_def astype_int16_def trunc_def)

text \<open>
  Claim C10 as stated fails for the buffer with no sample: the conversion raises
  \<open>ValueError\<close> (from \<open>np.max\<close>), so it is not total.
\<close>

theorem convert_empty_counterexample:
  "\<not> (\<exists>out. convert_to_16_bit_wav \<lparr>shape = [0], data = []\<rparr> = Inr out) \<and>
   convert_to_16_bit_wav \<lparr>shape = [0], data = []\<rparr> = Inl ValueError"
  by (simp add: convert_to_16_bit_wav_def np_max_def np_abs_def)

end
